theory Spec2Isabelle
  imports Complex_Main
begin

section \<open>The filesystem seen through pathlib\<close>

text \<open>
  The server keeps no data of its own: every request is answered from the directory
  tree under \<open>VOICES_DIR\<close>. A tree node is a regular file with its (decoded) text or a
  directory with its entries in the order the operating system lists them. A file
  carries whether the server process may read it, a directory whether the process may
  list it and whether it may search it. There are no symbolic links.
\<close>

datatype node = File bool string | Dir bool bool "(string \<times> node) list"

text \<open>
  A pure POSIX path as pathlib keeps it: its anchor (empty, \<open>/\<close> or \<open>//\<close>) and its
  parts. Parsing a string splits at \<open>/\<close> and drops empty parts and \<open>.\<close> parts; \<open>..\<close> is
  kept. Exactly two leading slashes are kept as the anchor, any other number is one.
\<close>

datatype PurePath = PurePath (anchor: string) (parts: "string list")

fun split_sep :: "string \<Rightarrow> string list" where
  "split_sep [] = [[]]"
| "split_sep (c # cs) =
     (if c = CHR ''/'' then [] # split_sep cs
      else (case split_sep cs of [] \<Rightarrow> [[c]] | w # ws \<Rightarrow> (c # w) # ws))"

definition parse_parts :: "string \<Rightarrow> string list" where
  "parse_parts s = filter (\<lambda>p. p \<noteq> [] \<and> p \<noteq> ''.'') (split_sep s)"

definition splitroot :: "string \<Rightarrow> string" where
  "splitroot s =
     (let n = length (takeWhile (\<lambda>c. c = CHR ''/'') s)
      in if n = 0 then [] else if n = 2 then ''//'' else ''/'')"

definition Path :: "string \<Rightarrow> PurePath" where
  "Path s = PurePath (splitroot s) (parse_parts s)"

text \<open>\<open>p / s\<close>: an anchored right operand replaces the left one.\<close>

definition truediv :: "PurePath \<Rightarrow> string \<Rightarrow> PurePath" where
  "truediv p s =
     (let q = Path s
      in if anchor q \<noteq> [] then q else PurePath (anchor p) (parts p @ parts q))"

text \<open>The path objects that \<open>iterdir\<close> and \<open>glob\<close> yield: the entry name appended as one part.\<close>

definition make_child :: "PurePath \<Rightarrow> string \<Rightarrow> PurePath" where
  "make_child p name = PurePath (anchor p) (parts p @ [name])"

fun intercalate :: "string \<Rightarrow> string list \<Rightarrow> string" where
  "intercalate sep [] = []"
| "intercalate sep [x] = x"
| "intercalate sep (x # y # ys) = x @ sep @ intercalate sep (y # ys)"

definition str_path :: "PurePath \<Rightarrow> string" where
  "str_path p =
     (if anchor p = [] \<and> parts p = [] then ''.''
      else anchor p @ intercalate ''/'' (parts p))"

text \<open>
  The machine: the root directory, the working directory of the server process with
  the directories above it (nearest first), and the configured \<open>VOICES_DIR\<close>.
\<close>

record host =
  fs_root :: node
  cwd_dir :: node
  cwd_above :: "node list"
  VOICES_DIR :: string

text \<open>
  What a lookup can raise. \<open>NameTooLongError\<close> is the \<open>OSError\<close> with errno
  \<open>ENAMETOOLONG\<close>; \<open>ValueError\<close> is what Python raises for a path with a null
  character before it asks the system.
\<close>

datatype py_error =
  FileNotFoundError
| NotADirectoryError
| IsADirectoryError
| PermissionError
| NameTooLongError
| ValueError

text \<open>
  Lengths are counted in bytes of the UTF-8 encoding: two for a code point from 128 on.
  The two limits are those of Linux.
\<close>

definition utf8_length :: "string \<Rightarrow> nat" where
  "utf8_length s = sum_list (map (\<lambda>c. if of_char c < (128 :: nat) then 1 else 2) s)"

definition NAME_MAX :: nat where
  "NAME_MAX = 255"

definition PATH_MAX :: nat where
  "PATH_MAX = 4096"

text \<open>
  Name resolution as the system does it, one part at a time: below a regular file
  nothing can be looked up, a directory must be searchable, \<open>..\<close> goes back to the
  directory one level up (the root is its own parent), a part longer than \<open>NAME_MAX\<close>
  is refused, and a part that is not an entry is missing.
\<close>

fun walk :: "node \<Rightarrow> node list \<Rightarrow> string list \<Rightarrow> py_error + node" where
  "walk cur anc [] = Inr cur"
| "walk cur anc (c # cs) =
     (case cur of
        File _ _ \<Rightarrow> Inl NotADirectoryError
      | Dir _ searchable es \<Rightarrow>
          if \<not> searchable then Inl PermissionError
          else if c = ''..'' then
            (case anc of [] \<Rightarrow> walk cur [] cs | a # ups \<Rightarrow> walk a ups cs)
          else if NAME_MAX < utf8_length c then Inl NameTooLongError
          else
            (case map_of es c of
               None \<Rightarrow> Inl FileNotFoundError
             | Some n \<Rightarrow> walk n (cur # anc) cs))"

text \<open>
  \<open>os.stat\<close> of the string of a path: a null character and a string of \<open>PATH_MAX\<close>
  bytes or more are refused before any lookup; a path without anchor starts at the
  working directory.
\<close>

definition stat :: "host \<Rightarrow> PurePath \<Rightarrow> py_error + node" where
  "stat h p =
     (if CHR 0x00 \<in> set (str_path p) then Inl ValueError
      else if PATH_MAX \<le> utf8_length (str_path p) then Inl NameTooLongError
      else if anchor p = [] then walk (cwd_dir h) (cwd_above h) (parts p)
      else walk (fs_root h) [] (parts p))"

text \<open>
  \<open>Path.exists()\<close> and \<open>Path.is_dir()\<close> answer \<open>False\<close> for a missing part, a part
  below a regular file and a \<open>ValueError\<close>; every other error of the lookup is raised
  again.
\<close>

definition exists :: "host \<Rightarrow> PurePath \<Rightarrow> py_error + bool" where
  "exists h p =
     (case stat h p of
        Inr _ \<Rightarrow> Inr True
      | Inl FileNotFoundError \<Rightarrow> Inr False
      | Inl NotADirectoryError \<Rightarrow> Inr False
      | Inl ValueError \<Rightarrow> Inr False
      | Inl e \<Rightarrow> Inl e)"

definition is_dir :: "host \<Rightarrow> PurePath \<Rightarrow> py_error + bool" where
  "is_dir h p =
     (case stat h p of
        Inr (Dir _ _ _) \<Rightarrow> Inr True
      | Inr (File _ _) \<Rightarrow> Inr False
      | Inl FileNotFoundError \<Rightarrow> Inr False
      | Inl NotADirectoryError \<Rightarrow> Inr False
      | Inl ValueError \<Rightarrow> Inr False
      | Inl e \<Rightarrow> Inl e)"

text \<open>\<open>os.listdir\<close>, which \<open>iterdir\<close> runs: every error is raised.\<close>

definition iterdir :: "host \<Rightarrow> PurePath \<Rightarrow> py_error + string list" where
  "iterdir h p =
     (case stat h p of
        Inl e \<Rightarrow> Inl e
      | Inr (File _ _) \<Rightarrow> Inl NotADirectoryError
      | Inr (Dir listable _ es) \<Rightarrow> if listable then Inr (map fst es) else Inl PermissionError)"

definition endswith :: "string \<Rightarrow> string \<Rightarrow> bool" where
  "endswith s suffix = (length suffix \<le> length s \<and> drop (length s - length suffix) s = suffix)"

text \<open>
  \<open>p.glob("*.wav")\<close>: nothing unless \<open>p.is_dir()\<close>; then the names of the entries of
  \<open>p\<close> that end in \<open>.wav\<close>, a \<open>PermissionError\<close> of the scan giving no names.
\<close>

definition glob_wav :: "host \<Rightarrow> PurePath \<Rightarrow> py_error + string list" where
  "glob_wav h p =
     (case is_dir h p of
        Inl e \<Rightarrow> Inl e
      | Inr False \<Rightarrow> Inr []
      | Inr True \<Rightarrow>
          (case stat h p of
             Inr (Dir listable _ es) \<Rightarrow>
               Inr (if listable then filter (\<lambda>name. endswith name ''.wav'') (map fst es) else [])
           | _ \<Rightarrow> Inr []))"

text \<open>
  \<open>rfind\<close> gives the index of the last dot; \<open>stem\<close> cuts the name there unless the dot
  is the first or the last character.
\<close>

fun rfind_dot :: "string \<Rightarrow> nat option" where
  "rfind_dot [] = None"
| "rfind_dot (c # cs) =
     (case rfind_dot cs of
        Some i \<Rightarrow> Some (Suc i)
      | None \<Rightarrow> if c = CHR ''.'' then Some 0 else None)"

definition stem :: "string \<Rightarrow> string" where
  "stem name =
     (case rfind_dot name of
        Some i \<Rightarrow> if 0 < i \<and> i < length name - 1 then take i name else name
      | None \<Rightarrow> name)"

text \<open>
  \<open>open(p, 'r', encoding='utf-8')\<close> and \<open>read()\<close>: the lookup, then the permission to
  read; a directory cannot be read as text. The text of a file is what decoding yields.
\<close>

definition read_text :: "host \<Rightarrow> PurePath \<Rightarrow> py_error + string" where
  "read_text h p =
     (case stat h p of
        Inl e \<Rightarrow> Inl e
      | Inr (File readable s) \<Rightarrow> if readable then Inr s else Inl PermissionError
      | Inr (Dir listable _ _) \<Rightarrow>
          if listable then Inl IsADirectoryError else Inl PermissionError)"

section \<open>Strings\<close>

text \<open>
  \<open>str.strip()\<close> removes the characters for which \<open>str.isspace\<close> holds from both ends.
  Characters are code points below 256 here.
\<close>

definition isspace :: "char \<Rightarrow> bool" where
  "isspace c = (of_char c \<in> {9, 10, 11, 12, 13, 28, 29, 30, 31, 32, 133, 160 :: nat})"

definition strip :: "string \<Rightarrow> string" where
  "strip s = rev (dropWhile isspace (rev (dropWhile isspace s)))"

definition quoted :: "string \<Rightarrow> string" where
  "quoted s = CHR 0x27 # s @ [CHR 0x27]"

section \<open>Listing the voices\<close>

datatype failure = HTTPException int string | Unhandled py_error

text \<open>
  The inner loop of lines 92 to 97 over the files that \<open>glob\<close> has found: an error of
  \<open>txt_file.exists()\<close> ends the whole request.
\<close>

fun collect_variations :: "host \<Rightarrow> PurePath \<Rightarrow> string list \<Rightarrow> py_error + string list" where
  "collect_variations h voice_dir [] = Inr []"
| "collect_variations h voice_dir (wav_file # rest) =
     (case exists h (truediv voice_dir (stem wav_file @ ''.txt'')) of
        Inl e \<Rightarrow> Inl e
      | Inr found \<Rightarrow>
          (case collect_variations h voice_dir rest of
             Inl e \<Rightarrow> Inl e
           | Inr variations \<Rightarrow> Inr (if found then stem wav_file # variations else variations)))"

definition voice_entry ::
  "host \<Rightarrow> PurePath \<Rightarrow> string \<Rightarrow> py_error + (string \<times> string list) list" where
  "voice_entry h voices_path name =
     (let voice_dir = make_child voices_path name
      in case is_dir h voice_dir of
           Inl e \<Rightarrow> Inl e
         | Inr False \<Rightarrow> Inr []
         | Inr True \<Rightarrow>
             (case glob_wav h voice_dir of
                Inl e \<Rightarrow> Inl e
              | Inr wav_files \<Rightarrow>
                  (case collect_variations h voice_dir wav_files of
                     Inl e \<Rightarrow> Inl e
                   | Inr variations \<Rightarrow>
                       Inr (if variations \<noteq> [] then [(name, variations)] else []))))"

text \<open>The outer loop of lines 86 to 103 over the entries of the storage root.\<close>

fun scan_voices ::
  "host \<Rightarrow> PurePath \<Rightarrow> string list \<Rightarrow> py_error + (string \<times> string list) list" where
  "scan_voices h voices_path [] = Inr []"
| "scan_voices h voices_path (name # rest) =
     (case voice_entry h voices_path name of
        Inl e \<Rightarrow> Inl e
      | Inr entry \<Rightarrow>
          (case scan_voices h voices_path rest of
             Inl e \<Rightarrow> Inl e
           | Inr voices \<Rightarrow> Inr (entry @ voices)))"

definition list_voices :: "host \<Rightarrow> failure + (string \<times> string list) list" where
  "list_voices h =
     (let voices_path = Path (VOICES_DIR h)
      in case exists h voices_path of
           Inl e \<Rightarrow> Inl (Unhandled e)
         | Inr False \<Rightarrow> Inr []
         | Inr True \<Rightarrow>
             (case iterdir h voices_path of
                Inl e \<Rightarrow> Inl (Unhandled e)
              | Inr names \<Rightarrow>
                  (case scan_voices h voices_path names of
                     Inl e \<Rightarrow> Inl (Unhandled e)
                   | Inr voices \<Rightarrow> Inr voices)))"

section \<open>Generating speech\<close>

text \<open>
  The request body. The two floats and \<open>nfe_step\<close> are handed to the engine as they
  come and never computed on here.
\<close>

record GenerateRequest =
  voice_id :: string
  text' :: string
  variation :: "string option"
  speed :: "real option"
  nfe_step :: "int option"
  cross_fade_duration :: "real option"
  seed :: "int option"
  remove_silence :: "bool option"

type_synonym waveform = "real list"

text \<open>
  The library calls of the handler, as the outcomes they have in one run: \<open>Inl m\<close> is
  an exception whose \<open>str\<close> is \<open>m\<close>. \<open>infer_process\<close> reads the generator that
  \<open>torch.manual_seed\<close> has just seeded, so it takes that seed as its first argument.
  \<open>NamedTemporaryFile\<close> yields the name of the file it has created.
\<close>

record engine =
  np_random_randint :: "int \<Rightarrow> int \<Rightarrow> int"
  torch_manual_seed :: "int \<Rightarrow> string + unit"
  preprocess_ref_audio_text :: "string \<Rightarrow> string \<Rightarrow> string + (string \<times> string)"
  infer_process ::
    "int \<Rightarrow> string \<Rightarrow> string \<Rightarrow> string \<Rightarrow> real option \<Rightarrow> int option \<Rightarrow> real option
       \<Rightarrow> string + (waveform \<times> int)"
  NamedTemporaryFile :: "string \<Rightarrow> string + string"
  sf_write :: "string \<Rightarrow> waveform \<Rightarrow> int \<Rightarrow> string + unit"

text \<open>What a request leaves behind: the temporary files on disk and the library calls made.\<close>

datatype call =
  Call_randint
| Call_manual_seed int
| Call_preprocess
| Call_infer
| Call_NamedTemporaryFile
| Call_sf_write

record effects =
  tmp_files :: "string list"
  calls :: "call list"

definition called :: "call \<Rightarrow> effects \<Rightarrow> effects" where
  "called c st = st\<lparr>calls := calls st @ [c]\<rparr>"

record FileResponse =
  path :: string
  media_type :: string
  filename :: string
  background_unlink :: string

text \<open>\<open>a or b\<close> on an optional string: \<open>None\<close> and the empty string are both falsy.\<close>

definition py_or :: "string option \<Rightarrow> string \<Rightarrow> string" where
  "py_or a b = (case a of None \<Rightarrow> b | Some s \<Rightarrow> if s = [] then b else s)"

definition NoneType_int_msg :: string where
  "NoneType_int_msg =
     quoted ''<'' @ '' not supported between instances of '' @ quoted ''NoneType''
       @ '' and '' @ quoted ''int''"

text \<open>Lines 146 to 149: the seed is compared, perhaps drawn, and given to torch.\<close>

definition resolve_seed :: "engine \<Rightarrow> int \<Rightarrow> int" where
  "resolve_seed e s =
     (if s < 0 \<or> s > 2 ^ 31 - 1 then np_random_randint e 0 (2 ^ 31 - 1) else s)"

definition set_seed :: "engine \<Rightarrow> int option \<Rightarrow> effects \<Rightarrow> (string + int) \<times> effects" where
  "set_seed e sd st =
     (case sd of
        None \<Rightarrow> (Inl NoneType_int_msg, st)
      | Some s \<Rightarrow>
          (let st1 = (if s < 0 \<or> s > 2 ^ 31 - 1 then called Call_randint st else st);
               s' = resolve_seed e s;
               st2 = called (Call_manual_seed s') st1
           in case torch_manual_seed e s' of
                Inl m \<Rightarrow> (Inl m, st2)
              | Inr _ \<Rightarrow> (Inr s', st2)))"

text \<open>Lines 151 to 169: preprocessing of the reference, then the inference itself.\<close>

definition synthesize ::
  "engine \<Rightarrow> GenerateRequest \<Rightarrow> int \<Rightarrow> PurePath \<Rightarrow> string \<Rightarrow> effects
     \<Rightarrow> (string + (waveform \<times> int)) \<times> effects" where
  "synthesize e request s ref_audio_path ref_text st =
     (let st1 = called Call_preprocess st
      in case preprocess_ref_audio_text e (str_path ref_audio_path) ref_text of
           Inl m \<Rightarrow> (Inl m, st1)
         | Inr (ref_audio, ref_text_processed) \<Rightarrow>
             (let st2 = called Call_infer st1
              in case infer_process e s ref_audio ref_text_processed (text' request)
                        (cross_fade_duration request) (nfe_step request) (speed request) of
                   Inl m \<Rightarrow> (Inl m, st2)
                 | Inr r \<Rightarrow> (Inr r, st2)))"

text \<open>
  Lines 171 to 174: the temporary file is created with \<open>delete=False\<close>, so leaving the
  \<open>with\<close> block closes it and keeps it, whether \<open>sf.write\<close> returned or raised.
\<close>

definition save_artifact ::
  "engine \<Rightarrow> waveform \<Rightarrow> int \<Rightarrow> effects \<Rightarrow> (string + string) \<times> effects" where
  "save_artifact e final_wave final_sample_rate st =
     (let st1 = called Call_NamedTemporaryFile st
      in case NamedTemporaryFile e ''.wav'' of
           Inl m \<Rightarrow> (Inl m, st1)
         | Inr output_path \<Rightarrow>
             (let st2 = called Call_sf_write (st1\<lparr>tmp_files := output_path # tmp_files st1\<rparr>)
              in case sf_write e output_path final_wave final_sample_rate of
                   Inl m \<Rightarrow> (Inl m, st2)
                 | Inr _ \<Rightarrow> (Inr output_path, st2)))"

text \<open>The body of the \<open>try\<close>: the first exception ends it, with its message.\<close>

definition inference_block ::
  "engine \<Rightarrow> GenerateRequest \<Rightarrow> string \<Rightarrow> PurePath \<Rightarrow> string \<Rightarrow> effects
     \<Rightarrow> (string + FileResponse) \<times> effects" where
  "inference_block e request variation' ref_audio_path ref_text st =
     (case set_seed e (seed request) st of
        (Inl m, st1) \<Rightarrow> (Inl m, st1)
      | (Inr s, st1) \<Rightarrow>
          (case synthesize e request s ref_audio_path ref_text st1 of
             (Inl m, st2) \<Rightarrow> (Inl m, st2)
           | (Inr (final_wave, final_sample_rate), st2) \<Rightarrow>
               (case save_artifact e final_wave final_sample_rate st2 of
                  (Inl m, st3) \<Rightarrow> (Inl m, st3)
                | (Inr output_path, st3) \<Rightarrow>
                    (Inr \<lparr>path = output_path, media_type = ''audio/wav'',
                          filename = voice_id request @ ''_'' @ variation' @ ''.wav'',
                          background_unlink = output_path\<rparr>, st3))))"

definition generate_speech ::
  "host \<Rightarrow> engine \<Rightarrow> GenerateRequest \<Rightarrow> effects \<Rightarrow> (failure + FileResponse) \<times> effects" where
  "generate_speech h e request st =
     (let variation' = py_or (variation request) (voice_id request);
          voice_dir = truediv (Path (VOICES_DIR h)) (voice_id request);
          ref_audio_path = truediv voice_dir (variation' @ ''.wav'');
          ref_text_path = truediv voice_dir (variation' @ ''.txt'')
      in case exists h voice_dir of
           Inl err \<Rightarrow> (Inl (Unhandled err), st)
         | Inr False \<Rightarrow>
             (Inl (HTTPException 404
                     (''Voice ID '' @ quoted (voice_id request) @ '' not found'')), st)
         | Inr True \<Rightarrow>
        (case exists h ref_audio_path of
           Inl err \<Rightarrow> (Inl (Unhandled err), st)
         | Inr False \<Rightarrow>
             (Inl (HTTPException 404
                     (''Variation '' @ quoted variation' @ '' not found for voice ''
                        @ quoted (voice_id request))), st)
         | Inr True \<Rightarrow>
        (case exists h ref_text_path of
           Inl err \<Rightarrow> (Inl (Unhandled err), st)
         | Inr False \<Rightarrow>
             (Inl (HTTPException 404
                     (''Reference text file not found for variation '' @ quoted variation')), st)
         | Inr True \<Rightarrow>
             if text' request = [] \<or> strip (text' request) = [] then
               (Inl (HTTPException 400 ''Text parameter is required and cannot be empty''), st)
             else
               (case read_text h ref_text_path of
                  Inl err \<Rightarrow> (Inl (Unhandled err), st)
                | Inr content \<Rightarrow>
                    (case inference_block e request variation' ref_audio_path
                            (strip content) st of
                       (Inl m, st') \<Rightarrow>
                         (Inl (HTTPException 500 (''Model inference error: '' @ m)), st')
                     | (Inr response, st') \<Rightarrow> (Inr response, st'))))))"

text \<open>The background callable of the response: \<open>os.unlink(output_path)\<close>.\<close>

definition run_background :: "FileResponse \<Rightarrow> effects \<Rightarrow> effects" where
  "run_background response st =
     st\<lparr>tmp_files := removeAll (background_unlink response) (tmp_files st)\<rparr>"

section \<open>Seeds that a request can end up with\<close>

text \<open>
  \<open>np.random.randint(low, high)\<close> returns an integer from \<open>low\<close> (inclusive) to
  \<open>high\<close> (exclusive).
\<close>

definition randint_values :: "int \<Rightarrow> int \<Rightarrow> int set" where
  "randint_values low high = {low..<high}"

definition resolved_seeds :: "int \<Rightarrow> int set" where
  "resolved_seeds s =
     {resolve_seed e s | e. np_random_randint e 0 (2 ^ 31 - 1) \<in> randint_values 0 (2 ^ 31 - 1)}"

section \<open>What the checks of a request look at\<close>

text \<open>Lines 113 to 118 once more, one name for each path the handler builds.\<close>

definition resolved_variation :: "GenerateRequest \<Rightarrow> string" where
  "resolved_variation request = py_or (variation request) (voice_id request)"

definition voice_dir_of :: "host \<Rightarrow> GenerateRequest \<Rightarrow> PurePath" where
  "voice_dir_of h request = truediv (Path (VOICES_DIR h)) (voice_id request)"

definition ref_audio_path_of :: "host \<Rightarrow> GenerateRequest \<Rightarrow> PurePath" where
  "ref_audio_path_of h request =
     truediv (voice_dir_of h request) (resolved_variation request @ ''.wav'')"

definition ref_text_path_of :: "host \<Rightarrow> GenerateRequest \<Rightarrow> PurePath" where
  "ref_text_path_of h request =
     truediv (voice_dir_of h request) (resolved_variation request @ ''.txt'')"

definition checks_pass :: "host \<Rightarrow> GenerateRequest \<Rightarrow> bool" where
  "checks_pass h request =
     (exists h (voice_dir_of h request) = Inr True
        \<and> exists h (ref_audio_path_of h request) = Inr True
        \<and> exists h (ref_text_path_of h request) = Inr True)"

text \<open>
  The three existence checks for the voice \<open>vid\<close> and the variation \<open>v\<close>, in the
  order of lines 121 to 134: the first lookup that raises ends them with its error, the
  first path reported missing ends them with \<open>False\<close>.
\<close>

definition pair_lookup :: "host \<Rightarrow> string \<Rightarrow> string \<Rightarrow> py_error + bool" where
  "pair_lookup h vid v =
     (let voice_dir = truediv (Path (VOICES_DIR h)) vid
      in case exists h voice_dir of
           Inl err \<Rightarrow> Inl err
         | Inr False \<Rightarrow> Inr False
         | Inr True \<Rightarrow>
             (case exists h (truediv voice_dir (v @ ''.wav'')) of
                Inl err \<Rightarrow> Inl err
              | Inr False \<Rightarrow> Inr False
              | Inr True \<Rightarrow> exists h (truediv voice_dir (v @ ''.txt''))))"

text \<open>The voice directory of \<open>vid\<close> is there and holds \<open>v.wav\<close> and \<open>v.txt\<close>.\<close>

definition reference_pair_exists :: "host \<Rightarrow> string \<Rightarrow> string \<Rightarrow> bool" where
  "reference_pair_exists h vid v =
     (let voice_dir = truediv (Path (VOICES_DIR h)) vid
      in exists h voice_dir = Inr True \<and> exists h (truediv voice_dir (v @ ''.wav'')) = Inr True
           \<and> exists h (truediv voice_dir (v @ ''.txt'')) = Inr True)"

definition blank :: "string \<Rightarrow> bool" where
  "blank s = (\<forall>c \<in> set s. isspace c)"

text \<open>
  An exception with message \<open>m\<close> leaves the \<open>try\<close> block: the comparison of a missing
  seed, or the first library call that raises after the earlier ones have returned.
\<close>

inductive raised_in_try ::
  "engine \<Rightarrow> GenerateRequest \<Rightarrow> PurePath \<Rightarrow> string \<Rightarrow> string \<Rightarrow> bool"
  for e :: engine and request :: GenerateRequest and ref_audio_path :: PurePath
    and ref_text :: string
where
  seed_comparison:
    "seed request = None \<Longrightarrow> raised_in_try e request ref_audio_path ref_text NoneType_int_msg"
| seed_setting:
    "seed request = Some s \<Longrightarrow> torch_manual_seed e (resolve_seed e s) = Inl m
     \<Longrightarrow> raised_in_try e request ref_audio_path ref_text m"
| preprocessing:
    "seed request = Some s \<Longrightarrow> torch_manual_seed e (resolve_seed e s) = Inr u
     \<Longrightarrow> preprocess_ref_audio_text e (str_path ref_audio_path) ref_text = Inl m
     \<Longrightarrow> raised_in_try e request ref_audio_path ref_text m"
| inference:
    "seed request = Some s \<Longrightarrow> torch_manual_seed e (resolve_seed e s) = Inr u
     \<Longrightarrow> preprocess_ref_audio_text e (str_path ref_audio_path) ref_text
           = Inr (ref_audio, ref_text_processed)
     \<Longrightarrow> infer_process e (resolve_seed e s) ref_audio ref_text_processed (text' request)
           (cross_fade_duration request) (nfe_step request) (speed request) = Inl m
     \<Longrightarrow> raised_in_try e request ref_audio_path ref_text m"
| tempfile_creation:
    "seed request = Some s \<Longrightarrow> torch_manual_seed e (resolve_seed e s) = Inr u
     \<Longrightarrow> preprocess_ref_audio_text e (str_path ref_audio_path) ref_text
           = Inr (ref_audio, ref_text_processed)
     \<Longrightarrow> infer_process e (resolve_seed e s) ref_audio ref_text_processed (text' request)
           (cross_fade_duration request) (nfe_step request) (speed request)
           = Inr (final_wave, final_sample_rate)
     \<Longrightarrow> NamedTemporaryFile e ''.wav'' = Inl m
     \<Longrightarrow> raised_in_try e request ref_audio_path ref_text m"
| writing:
    "seed request = Some s \<Longrightarrow> torch_manual_seed e (resolve_seed e s) = Inr u
     \<Longrightarrow> preprocess_ref_audio_text e (str_path ref_audio_path) ref_text
           = Inr (ref_audio, ref_text_processed)
     \<Longrightarrow> infer_process e (resolve_seed e s) ref_audio ref_text_processed (text' request)
           (cross_fade_duration request) (nfe_step request) (speed request)
           = Inr (final_wave, final_sample_rate)
     \<Longrightarrow> NamedTemporaryFile e ''.wav'' = Inr output_path
     \<Longrightarrow> sf_write e output_path final_wave final_sample_rate = Inl m
     \<Longrightarrow> raised_in_try e request ref_audio_path ref_text m"

section \<open>A sample installation\<close>

definition voices_tree :: node where
  "voices_tree =
     Dir True True
       [(''alice'',
          Dir True True
            [(''alice.wav'', File True ''RIFF''),
             (''alice.txt'', File True '' Some call me nature. ''),
             (''formal.wav'', File True ''RIFF''),
             (''casual.wav'', File True ''RIFF''),
             (''casual.txt'', Dir True True []),
             (''notes.txt'', File True ''todo'')]),
        (''draft'', Dir True True [(''take1.wav'', File True ''RIFF'')]),
        (''README.md'', File True ''voices'')]"

definition srv_tree :: node where
  "srv_tree = Dir True True [(''data'', Dir True True [(''voices'', voices_tree)])]"

definition sample_host :: host where
  "sample_host =
     \<lparr>fs_root = Dir True True [(''srv'', srv_tree)],
      cwd_dir = srv_tree,
      cwd_above = [Dir True True [(''srv'', srv_tree)]],
      VOICES_DIR = ''data/voices''\<rparr>"

text \<open>A fresh machine: the working directory is empty.\<close>

definition bare_host :: host where
  "bare_host =
     \<lparr>fs_root = Dir True True [(''srv'', Dir True True [])],
      cwd_dir = Dir True True [],
      cwd_above = [Dir True True [(''srv'', Dir True True [])]],
      VOICES_DIR = ''data/voices''\<rparr>"

text \<open>A name of 300 letters, longer than any file name can be.\<close>

definition long_name :: string where
  "long_name = replicate 300 (CHR ''a'')"

definition long_root_host :: host where
  "long_root_host = bare_host\<lparr>VOICES_DIR := long_name\<rparr>"

definition sample_engine :: engine where
  "sample_engine =
     \<lparr>np_random_randint = (\<lambda>low high. low),
      torch_manual_seed = (\<lambda>s. Inr ()),
      preprocess_ref_audio_text = (\<lambda>a t. Inr (a, t)),
      infer_process = (\<lambda>s a rt t c n sp. Inr ([0, 0], 24000)),
      NamedTemporaryFile = (\<lambda>suffix. Inr (''/tmp/tmpk3v9'' @ suffix)),
      sf_write = (\<lambda>p w r. Inr ())\<rparr>"

definition disk_full_engine :: engine where
  "disk_full_engine = sample_engine\<lparr>sf_write := (\<lambda>p w r. Inl ''No space left on device'')\<rparr>"

definition out_of_memory_engine :: engine where
  "out_of_memory_engine =
     sample_engine\<lparr>infer_process := (\<lambda>s a rt t c n sp. Inl ''CUDA out of memory'')\<rparr>"

text \<open>A request with the defaults of the request model for every optional field.\<close>

definition request_for :: "string \<Rightarrow> string \<Rightarrow> GenerateRequest" where
  "request_for vid txt =
     \<lparr>voice_id = vid, text' = txt, variation = None, speed = Some 1, nfe_step = Some 32,
      cross_fade_duration = Some 0.15, seed = Some (- 1), remove_silence = Some False\<rparr>"

definition nothing_yet :: effects where
  "nothing_yet = \<lparr>tmp_files = [], calls = []\<rparr>"

section \<open>Facts about the model\<close>

lemma dropWhile_all_iff:
  "(\<forall>x \<in> set (dropWhile P xs). P x) \<longleftrightarrow> dropWhile P xs = []"
proof
  assume all: "\<forall>x \<in> set (dropWhile P xs). P x"
  show "dropWhile P xs = []"
  proof (rule ccontr)
    assume ne: "dropWhile P xs \<noteq> []"
    then have "\<not> P (hd (dropWhile P xs))"
      by (rule hd_dropWhile)
    moreover from ne have "hd (dropWhile P xs) \<in> set (dropWhile P xs)"
      by (rule hd_in_set)
    ultimately show False
      using all by blast
  qed
next
  assume "dropWhile P xs = []"
  then show "\<forall>x \<in> set (dropWhile P xs). P x"
    by (simp del: dropWhile_eq_Nil_conv)
qed

lemma strip_Nil_iff: "strip s = [] \<longleftrightarrow> blank s"
proof -
  have "strip s = [] \<longleftrightarrow> (\<forall>x \<in> set (dropWhile isspace s). isspace x)"
    by (simp add: strip_def)
  also have "\<dots> \<longleftrightarrow> dropWhile isspace s = []"
    by (rule dropWhile_all_iff)
  also have "\<dots> \<longleftrightarrow> blank s"
    by (simp add: blank_def)
  finally show ?thesis .
qed

lemma text_check_iff: "(text' request = [] \<or> strip (text' request) = []) \<longleftrightarrow> blank (text' request)"
  by (auto simp: strip_Nil_iff blank_def)

lemma generate_speech_unfold:
  "generate_speech h e request st =
     (case exists h (voice_dir_of h request) of
        Inl err \<Rightarrow> (Inl (Unhandled err), st)
      | Inr False \<Rightarrow>
          (Inl (HTTPException 404
                  (''Voice ID '' @ quoted (voice_id request) @ '' not found'')), st)
      | Inr True \<Rightarrow>
     (case exists h (ref_audio_path_of h request) of
        Inl err \<Rightarrow> (Inl (Unhandled err), st)
      | Inr False \<Rightarrow>
          (Inl (HTTPException 404
                  (''Variation '' @ quoted (resolved_variation request)
                     @ '' not found for voice '' @ quoted (voice_id request))), st)
      | Inr True \<Rightarrow>
     (case exists h (ref_text_path_of h request) of
        Inl err \<Rightarrow> (Inl (Unhandled err), st)
      | Inr False \<Rightarrow>
          (Inl (HTTPException 404
                  (''Reference text file not found for variation ''
                     @ quoted (resolved_variation request))), st)
      | Inr True \<Rightarrow>
          if blank (text' request) then
            (Inl (HTTPException 400 ''Text parameter is required and cannot be empty''), st)
          else
            (case read_text h (ref_text_path_of h request) of
               Inl err \<Rightarrow> (Inl (Unhandled err), st)
             | Inr content \<Rightarrow>
                 (case inference_block e request (resolved_variation request)
                         (ref_audio_path_of h request) (strip content) st of
                    (Inl m, st') \<Rightarrow>
                      (Inl (HTTPException 500 (''Model inference error: '' @ m)), st')
                  | (Inr response, st') \<Rightarrow> (Inr response, st'))))))"
  unfolding generate_speech_def Let_def voice_dir_of_def ref_audio_path_of_def
    ref_text_path_of_def resolved_variation_def text_check_iff
  by (rule refl)

lemmas sample_defs =
  sample_host_def bare_host_def long_root_host_def voices_tree_def srv_tree_def
  sample_engine_def disk_full_engine_def out_of_memory_engine_def request_for_def
  nothing_yet_def

lemmas path_defs =
  Path_def parse_parts_def splitroot_def truediv_def make_child_def stat_def exists_def
  is_dir_def iterdir_def glob_wav_def endswith_def stem_def read_text_def str_path_def
  utf8_length_def NAME_MAX_def PATH_MAX_def

lemmas request_defs =
  resolved_variation_def voice_dir_of_def ref_audio_path_of_def ref_text_path_of_def
  checks_pass_def reference_pair_exists_def pair_lookup_def py_or_def

lemmas block_defs =
  inference_block_def set_seed_def resolve_seed_def synthesize_def save_artifact_def
  called_def

lemma inference_block_raises:
  assumes "raised_in_try e request p t m"
  shows "fst (inference_block e request v p t st) = Inl m"
  using assms
  by (cases rule: raised_in_try.cases)
    (simp_all add: inference_block_def set_seed_def synthesize_def save_artifact_def Let_def)



lemma generate_speech_reached:
  assumes "checks_pass h request" and "\<not> blank (text' request)"
    and "read_text h (ref_text_path_of h request) = Inr content"
  shows "generate_speech h e request st =
           (case inference_block e request (resolved_variation request)
                   (ref_audio_path_of h request) (strip content) st of
              (Inl m, st') \<Rightarrow> (Inl (HTTPException 500 (''Model inference error: '' @ m)), st')
            | (Inr response, st') \<Rightarrow> (Inr response, st'))"
  using assms by (simp add: generate_speech_unfold checks_pass_def)

lemma truediv_empty: "truediv p [] = p"
  by (cases p) (simp add: truediv_def Path_def parse_parts_def splitroot_def)

subsection \<open>A name that is too long\<close>















lemma generate_speech_not_passed:
  assumes "\<not> checks_pass h request"
  shows "fst (generate_speech h e request st) \<noteq> Inr response"
    and "fst (generate_speech h e request st) \<noteq> Inl (HTTPException 400 d)"
    and "fst (generate_speech h e request st) \<noteq> Inl (HTTPException 500 d)"
  using assms
  unfolding generate_speech_unfold checks_pass_def
  by (auto split: sum.splits bool.splits)

lemma generate_speech_400_iff:
  "(\<exists>d. fst (generate_speech h e request st) = Inl (HTTPException 400 d))
     \<longleftrightarrow> checks_pass h request \<and> blank (text' request)"
proof (cases "checks_pass h request")
  case False
  then show ?thesis
    using generate_speech_not_passed(2) by blast
next
  case True
  then show ?thesis
    by (auto simp: generate_speech_unfold checks_pass_def split: sum.splits prod.splits)
qed



lemma set_seed_uses_resolved_seed:
  "torch_manual_seed e (resolve_seed e s) = Inr u \<Longrightarrow>
   fst (set_seed e (Some s) st) = Inr (resolve_seed e s)"
  by (simp add: set_seed_def Let_def)

lemma write_failure_keeps_file:
  assumes "NamedTemporaryFile e ''.wav'' = Inr output_path"
    and "sf_write e output_path final_wave final_sample_rate = Inl m"
  shows "save_artifact e final_wave final_sample_rate st =
           (Inl m, called Call_sf_write
                     ((called Call_NamedTemporaryFile st)
                        \<lparr>tmp_files := output_path # tmp_files st\<rparr>))"
  using assms by (simp add: save_artifact_def called_def)

lemma success_then_background_removes_file:
  assumes "generate_speech h e request st = (Inr response, st')"
  shows "background_unlink response = path response
         \<and> path response \<in> set (tmp_files st')
         \<and> path response \<notin> set (tmp_files (run_background response st'))"
  using assms
  by (auto simp: generate_speech_unfold inference_block_def save_artifact_def run_background_def
      called_def Let_def split: if_splits sum.splits prod.splits bool.splits)

lemma read_failure_is_unhandled:
  assumes "checks_pass h request" and "\<not> blank (text' request)"
    and "read_text h (ref_text_path_of h request) = Inl err"
  shows "generate_speech h e request st = (Inl (Unhandled err), st)"
  using assms by (simp add: generate_speech_unfold checks_pass_def)

lemma sample_alice_text:
  "read_text sample_host (ref_text_path_of sample_host ((request_for ''alice'' txt)\<lparr>seed := sd\<rparr>))
     = Inr '' Some call me nature. ''"
  by (simp add: sample_defs path_defs request_defs)

lemma sample_alice_checks': "checks_pass sample_host ((request_for ''alice'' txt)\<lparr>seed := sd\<rparr>)"
  by (simp add: sample_defs path_defs request_defs)

lemma sample_alice_checks: "checks_pass sample_host (request_for ''alice'' txt)"
  by (simp add: sample_defs path_defs request_defs)

lemma not_blank_Hello: "\<not> blank ''Hello''"
  by (simp add: blank_def isspace_def)

lemma blank_spaces: "blank '' ''"
  by (simp add: blank_def isspace_def)




subsection \<open>The loops of the catalog\<close>

lemma glob_wav_entry:
  assumes "glob_wav h p = Inr ws" and "w \<in> set ws"
  shows "endswith w ''.wav'' \<and> (\<exists>names. iterdir h p = Inr names \<and> w \<in> set names)"
proof (cases "stat h p")
  case (Inl err)
  with assms show ?thesis
    by (cases err) (auto simp: glob_wav_def is_dir_def)
next
  case (Inr n)
  with assms show ?thesis
    by (cases n) (auto simp: glob_wav_def is_dir_def iterdir_def split: if_splits)
qed

lemma collect_variations_sound:
  assumes "collect_variations h voice_dir ws = Inr vs" and "v \<in> set vs"
  shows "\<exists>w \<in> set ws. stem w = v \<and> exists h (truediv voice_dir (v @ ''.txt'')) = Inr True"
  using assms
proof (induction ws arbitrary: vs)
  case Nil
  then show ?case by simp
next
  case (Cons w ws)
  from Cons.prems(1) obtain found rest
    where found: "exists h (truediv voice_dir (stem w @ ''.txt'')) = Inr found"
      and rest: "collect_variations h voice_dir ws = Inr rest"
      and vs: "vs = (if found then stem w # rest else rest)"
    by (auto split: sum.splits)
  show ?case
  proof (cases "v \<in> set rest")
    case True
    from Cons.IH [OF rest True] show ?thesis by auto
  next
    case False
    with Cons.prems(2) vs have "found" and "v = stem w"
      by (auto split: if_splits)
    with found show ?thesis by auto
  qed
qed

lemma voice_entry_cases:
  assumes "voice_entry h vp name = Inr entry" and "(vid, vars) \<in> set entry"
  shows "vid = name \<and> vars \<noteq> [] \<and> is_dir h (make_child vp name) = Inr True
         \<and> (\<exists>ws. glob_wav h (make_child vp name) = Inr ws
                \<and> collect_variations h (make_child vp name) ws = Inr vars)"
  using assms
  by (auto simp: voice_entry_def Let_def split: sum.splits bool.splits if_splits)

lemma scan_voices_mem:
  assumes "scan_voices h vp names = Inr catalog" and "(vid, vars) \<in> set catalog"
  shows "\<exists>name entry. voice_entry h vp name = Inr entry \<and> (vid, vars) \<in> set entry"
  using assms
proof (induction names arbitrary: catalog)
  case Nil
  then show ?case by simp
next
  case (Cons name names)
  from Cons.prems(1) obtain entry voices
    where entry: "voice_entry h vp name = Inr entry"
      and voices: "scan_voices h vp names = Inr voices"
      and catalog: "catalog = entry @ voices"
    by (auto split: sum.splits)
  show ?case
  proof (cases "(vid, vars) \<in> set entry")
    case True
    with entry show ?thesis by blast
  next
    case False
    with Cons.prems(2) catalog have "(vid, vars) \<in> set voices" by simp
    from Cons.IH [OF voices this] show ?thesis .
  qed
qed

lemma sample_catalog: "list_voices sample_host = Inr [(''alice'', [''alice'', ''casual''])]"
  by (simp add: list_voices_def voice_entry_def sample_defs path_defs)

section \<open>The catalog\<close>




text \<open>
  Claim C5. The catalog lists a variation under a voice only if the voice directory has
  an entry ending in \<open>.wav\<close> whose stem is the variation and the text sidecar of that
  name exists beside it, so a \<open>.wav\<close> without its sidecar never appears; and every voice
  that is listed has at least one variation, a voice without any being left out.
\<close>

theorem catalog_lists_only_paired_variations:
  assumes "list_voices h = Inr catalog" and "(vid, vars) \<in> set catalog"
  shows "vars \<noteq> [] \<and> is_dir h (make_child (Path (VOICES_DIR h)) vid) = Inr True
         \<and> (\<forall>v \<in> set vars.
               \<exists>names wav_file.
                 iterdir h (make_child (Path (VOICES_DIR h)) vid) = Inr names
                 \<and> wav_file \<in> set names \<and> endswith wav_file ''.wav'' \<and> stem wav_file = v
                 \<and> exists h (truediv (make_child (Path (VOICES_DIR h)) vid) (v @ ''.txt''))
                     = Inr True)"
proof -
  let ?vp = "Path (VOICES_DIR h)"
  from assms obtain names where "scan_voices h ?vp names = Inr catalog"
    by (auto simp: list_voices_def Let_def split: sum.splits bool.splits)
  from scan_voices_mem [OF this assms(2)] obtain name entry
    where "voice_entry h ?vp name = Inr entry" and "(vid, vars) \<in> set entry"
    by blast
  from voice_entry_cases [OF this] obtain ws
    where vid: "vid = name" and ne: "vars \<noteq> []"
      and dir: "is_dir h (make_child ?vp name) = Inr True"
      and glob: "glob_wav h (make_child ?vp name) = Inr ws"
      and vars: "collect_variations h (make_child ?vp name) ws = Inr vars"
    by blast
  have "\<exists>names wav_file.
          iterdir h (make_child ?vp vid) = Inr names
          \<and> wav_file \<in> set names \<and> endswith wav_file ''.wav'' \<and> stem wav_file = v
          \<and> exists h (truediv (make_child ?vp vid) (v @ ''.txt'')) = Inr True"
    if "v \<in> set vars" for v
  proof -
    from collect_variations_sound [OF vars that] obtain w
      where w: "w \<in> set ws" and v: "stem w = v"
        and sidecar: "exists h (truediv (make_child ?vp name) (v @ ''.txt'')) = Inr True"
      by blast
    from glob_wav_entry [OF glob w] obtain ns where "iterdir h (make_child ?vp name) = Inr ns"
      and "w \<in> set ns" and "endswith w ''.wav''"
      by blast
    with sidecar v vid show ?thesis
      by blast
  qed
  with ne dir vid show ?thesis
    by blast
qed

theorem catalog_lists_only_paired_variations_witness:
  "list_voices sample_host = Inr [(''alice'', [''alice'', ''casual''])]
   \<and> (''alice'', [''alice'', ''casual'']) \<in> set [(''alice'', [''alice'', ''casual''])]
   \<and> is_dir sample_host (make_child (Path (VOICES_DIR sample_host)) ''alice'') = Inr True
   \<and> exists sample_host
        (truediv (make_child (Path (VOICES_DIR sample_host)) ''alice'') (''alice'' @ ''.txt''))
       = Inr True"
proof -
  have mem: "(''alice'', [''alice'', ''casual'']) \<in> set [(''alice'', [''alice'', ''casual''])]"
    by simp
  from catalog_lists_only_paired_variations [OF sample_catalog mem]
  show ?thesis
    using sample_catalog by auto
qed

section \<open>Requests that are turned away\<close>




text \<open>
  Claim C7. When the voice directory, the reference audio and the reference text all
  exist and the text is empty or only whitespace, the request is answered 400 with the
  detail about the required text; the effects are unchanged, so no library call was made
  and no temporary file created.
\<close>

theorem blank_text_is_400:
  assumes "checks_pass h request" and "text' request = [] \<or> blank (text' request)"
  shows "generate_speech h e request st =
           (Inl (HTTPException 400 ''Text parameter is required and cannot be empty''), st)"
proof -
  from assms(2) have "blank (text' request)"
    by (auto simp: blank_def)
  with assms(1) show ?thesis
    by (simp add: generate_speech_unfold checks_pass_def)
qed

theorem blank_text_is_400_witness:
  "checks_pass sample_host (request_for ''alice'' '' '')
   \<and> blank (text' (request_for ''alice'' '' ''))
   \<and> generate_speech sample_host sample_engine (request_for ''alice'' '' '') nothing_yet =
       (Inl (HTTPException 400 ''Text parameter is required and cannot be empty''), nothing_yet)"
proof -
  have b: "text' (request_for ''alice'' '' '') = [] \<or> blank (text' (request_for ''alice'' '' ''))"
    by (simp add: request_for_def blank_spaces)
  from blank_text_is_400 [OF sample_alice_checks b, of sample_engine nothing_yet]
    sample_alice_checks b
  show ?thesis by (simp add: request_for_def)
qed

text \<open>
  Claim C3, as the handler has it. An empty \<open>voice_id\<close> is not validated. The request
  takes every step of the handler with the storage root itself as its voice directory:
  the three existence checks on the root, \<open>variation.wav\<close> and \<open>variation.txt\<close> below
  it (404 for the first one reported missing, the error of a failed lookup raised), the
  text check (400), the reading of the reference text and the \<open>try\<close> block (500 or
  the response).
\<close>

theorem empty_voice_id_is_not_validated:
  assumes "voice_id request = []"
  shows "generate_speech h e request st =
           (let root = Path (VOICES_DIR h);
                v = (case variation request of None \<Rightarrow> [] | Some s \<Rightarrow> s)
            in case exists h root of
                 Inl err \<Rightarrow> (Inl (Unhandled err), st)
               | Inr False \<Rightarrow>
                   (Inl (HTTPException 404 (''Voice ID '' @ quoted [] @ '' not found'')), st)
               | Inr True \<Rightarrow>
              (case exists h (truediv root (v @ ''.wav'')) of
                 Inl err \<Rightarrow> (Inl (Unhandled err), st)
               | Inr False \<Rightarrow>
                   (Inl (HTTPException 404
                           (''Variation '' @ quoted v @ '' not found for voice '' @ quoted [])),
                    st)
               | Inr True \<Rightarrow>
              (case exists h (truediv root (v @ ''.txt'')) of
                 Inl err \<Rightarrow> (Inl (Unhandled err), st)
               | Inr False \<Rightarrow>
                   (Inl (HTTPException 404
                           (''Reference text file not found for variation '' @ quoted v)), st)
               | Inr True \<Rightarrow>
                   if blank (text' request) then
                     (Inl (HTTPException 400
                             ''Text parameter is required and cannot be empty''), st)
                   else
                     (case read_text h (truediv root (v @ ''.txt'')) of
                        Inl err \<Rightarrow> (Inl (Unhandled err), st)
                      | Inr content \<Rightarrow>
                          (case inference_block e request v (truediv root (v @ ''.wav''))
                                  (strip content) st of
                             (Inl m, st') \<Rightarrow>
                               (Inl (HTTPException 500 (''Model inference error: '' @ m)), st')
                           | (Inr response, st') \<Rightarrow> (Inr response, st'))))))"
proof -
  have v: "resolved_variation request = (case variation request of None \<Rightarrow> [] | Some s \<Rightarrow> s)"
    using assms by (simp add: resolved_variation_def py_or_def split: option.splits)
  have root: "voice_dir_of h request = Path (VOICES_DIR h)"
    using assms by (simp add: voice_dir_of_def truediv_empty)
  show ?thesis
    unfolding generate_speech_unfold ref_audio_path_of_def ref_text_path_of_def root v Let_def
      assms
    by (rule refl)
qed

theorem empty_voice_id_is_not_validated_witness:
  "voice_id ((request_for [] '' '')\<lparr>variation := Some ''alice/alice''\<rparr>) = []
   \<and> generate_speech sample_host sample_engine
        ((request_for [] '' '')\<lparr>variation := Some ''alice/alice''\<rparr>) nothing_yet
       = (Inl (HTTPException 400 ''Text parameter is required and cannot be empty''),
          nothing_yet)"
proof -
  let ?r = "(request_for [] '' '')\<lparr>variation := Some ''alice/alice''\<rparr>"
  have v: "voice_id ?r = []"
    by (simp add: request_for_def)
  have b: "blank (text' ?r)"
    by (simp add: request_for_def blank_spaces)
  from empty_voice_id_is_not_validated [OF v, of sample_host sample_engine nothing_yet] v b
  show ?thesis
    by (simp add: sample_defs path_defs)
qed

text \<open>
  An empty \<open>voice_id\<close> with a variation that names a file pair below the storage root
  is not rejected at all: the speech is generated.
\<close>

theorem empty_voice_id_generates_speech:
  "voice_id ((request_for '''' ''Hi'')\<lparr>variation := Some ''alice/alice''\<rparr>) = []
   \<and> fst (generate_speech sample_host sample_engine
           ((request_for '''' ''Hi'')\<lparr>variation := Some ''alice/alice''\<rparr>) nothing_yet)
       = Inr \<lparr>path = ''/tmp/tmpk3v9.wav'', media_type = ''audio/wav'',
              filename = ''_alice/alice.wav'', background_unlink = ''/tmp/tmpk3v9.wav''\<rparr>"
  by (simp add: generate_speech_unfold sample_defs path_defs request_defs block_defs
      blank_def isspace_def strip_def)




section \<open>The seed\<close>

text \<open>
  Claim C2, as the handler has it. For an integer seed \<open>s\<close> below 0 or above
  \<open>2^31 - 1\<close> the seeds the request can resolve to are the values of
  \<open>np.random.randint(0, 2**31 - 1)\<close>, which are 0 to \<open>2^31 - 2\<close>; otherwise the only
  resolved seed is \<open>s\<close> itself.
\<close>

theorem resolved_seeds_eq:
  "resolved_seeds s = (if s < 0 \<or> s > 2 ^ 31 - 1 then {0 .. 2 ^ 31 - 2} else {s})"
proof (cases "s < 0 \<or> s > 2 ^ 31 - 1")
  case True
  have "resolved_seeds s = {0 .. 2 ^ 31 - 2}"
  proof (rule set_eqI)
    fix k :: int
    show "k \<in> resolved_seeds s \<longleftrightarrow> k \<in> {0 .. 2 ^ 31 - 2}"
    proof
      assume "k \<in> resolved_seeds s"
      with True show "k \<in> {0 .. 2 ^ 31 - 2}"
        by (auto simp: resolved_seeds_def resolve_seed_def randint_values_def)
    next
      assume k: "k \<in> {0 .. 2 ^ 31 - 2}"
      let ?e = "sample_engine\<lparr>np_random_randint := (\<lambda>low high. k)\<rparr>"
      from k have "np_random_randint ?e 0 (2 ^ 31 - 1) \<in> randint_values 0 (2 ^ 31 - 1)"
        by (simp add: randint_values_def)
      moreover from True have "resolve_seed ?e s = k"
        by (simp add: resolve_seed_def)
      ultimately
      have "\<exists>e. k = resolve_seed e s
                \<and> np_random_randint e 0 (2 ^ 31 - 1) \<in> randint_values 0 (2 ^ 31 - 1)"
        by (intro exI [of _ ?e] conjI) (rule sym, assumption+)
      then show "k \<in> resolved_seeds s"
        by (simp add: resolved_seeds_def)
    qed
  qed
  with True show ?thesis by simp
next
  case False
  have "np_random_randint sample_engine 0 (2 ^ 31 - 1) \<in> randint_values 0 (2 ^ 31 - 1)"
    by (simp add: sample_engine_def randint_values_def)
  with False have "resolved_seeds s = {s}"
    by (auto simp: resolved_seeds_def resolve_seed_def)
  with False show ?thesis by simp
qed

theorem resolved_seeds_eq_witness:
  "resolved_seeds 42 = {42} \<and> resolved_seeds (- 1) = {0 .. 2147483646}"
  using resolved_seeds_eq [of 42] resolved_seeds_eq [of "- 1"] by simp

text \<open>The upper end \<open>2^31 - 1\<close> of the range is never the seed drawn for the default \<open>-1\<close>.\<close>

text \<open>The upper end \<open>2^31 - 1\<close> of the range is never the seed drawn for the default \<open>-1\<close>.\<close>

theorem largest_seed_is_never_drawn: "2147483647 \<notin> resolved_seeds (- 1)"
  by (auto simp: resolved_seeds_def resolve_seed_def randint_values_def)

text \<open>
  Claim C9, as the handler has it. A request with a null seed that passes the existence
  checks and the text check, and whose reference text is read, is answered 500 with the
  message of the failed comparison of \<open>None\<close> with 0; nothing is drawn, no library call
  is made and no file is created.
\<close>

theorem null_seed_is_500:
  assumes "seed request = None" and "checks_pass h request" and "\<not> blank (text' request)"
    and "read_text h (ref_text_path_of h request) = Inr content"
  shows "generate_speech h e request st =
           (Inl (HTTPException 500 (''Model inference error: '' @ NoneType_int_msg)), st)"
  using assms(1)
  by (simp add: generate_speech_reached [OF assms(2-4)] inference_block_def set_seed_def)

theorem null_seed_is_500_witness:
  "seed ((request_for ''alice'' ''Hello'')\<lparr>seed := None\<rparr>) = None
   \<and> checks_pass sample_host ((request_for ''alice'' ''Hello'')\<lparr>seed := None\<rparr>)
   \<and> \<not> blank (text' ((request_for ''alice'' ''Hello'')\<lparr>seed := None\<rparr>))
   \<and> read_text sample_host
        (ref_text_path_of sample_host ((request_for ''alice'' ''Hello'')\<lparr>seed := None\<rparr>))
       = Inr '' Some call me nature. ''
   \<and> generate_speech sample_host sample_engine ((request_for ''alice'' ''Hello'')\<lparr>seed := None\<rparr>)
        nothing_yet
       = (Inl (HTTPException 500 (''Model inference error: '' @ NoneType_int_msg)), nothing_yet)"
proof -
  let ?r = "(request_for ''alice'' ''Hello'')\<lparr>seed := None\<rparr>"
  have sd: "seed ?r = None"
    by simp
  have nb: "\<not> blank (text' ?r)"
    by (simp add: request_for_def not_blank_Hello)
  from null_seed_is_500 [OF sd sample_alice_checks' nb sample_alice_text,
      of sample_engine nothing_yet]
  show ?thesis
    using sd sample_alice_checks' nb sample_alice_text by simp
qed

text \<open>A null seed does not give 500 when the voice is unknown: the answer is 404.\<close>

theorem null_seed_unknown_voice_is_404:
  "seed ((request_for ''bob'' ''Hi'')\<lparr>seed := None\<rparr>) = None
   \<and> fst (generate_speech sample_host sample_engine ((request_for ''bob'' ''Hi'')\<lparr>seed := None\<rparr>)
           nothing_yet)
       = Inl (HTTPException 404 (''Voice ID '' @ quoted ''bob'' @ '' not found''))"
  by (simp add: generate_speech_unfold sample_defs path_defs request_defs)

section \<open>Exceptions and the temporary file\<close>

text \<open>
  Claim C10. For a request that has reached the \<open>try\<close> block, every exception raised
  in it (during seed setting, preprocessing of the reference audio, inference, or
  creating and writing the temporary file) is answered 500 with the detail
  \<open>Model inference error: \<close> followed by the message of that exception.
\<close>

theorem try_block_errors_are_500:
  assumes "checks_pass h request" and "\<not> blank (text' request)"
    and "read_text h (ref_text_path_of h request) = Inr content"
    and "raised_in_try e request (ref_audio_path_of h request) (strip content) m"
  shows "fst (generate_speech h e request st) =
           Inl (HTTPException 500 (''Model inference error: '' @ m))"
proof -
  from assms(4)
  have "fst (inference_block e request (resolved_variation request)
               (ref_audio_path_of h request) (strip content) st) = Inl m"
    by (rule inference_block_raises)
  then obtain st' where "inference_block e request (resolved_variation request)
               (ref_audio_path_of h request) (strip content) st = (Inl m, st')"
    by (cases "inference_block e request (resolved_variation request)
               (ref_audio_path_of h request) (strip content) st") simp
  then show ?thesis
    by (simp add: generate_speech_reached [OF assms(1-3)])
qed

theorem try_block_errors_are_500_witness:
  "checks_pass sample_host ((request_for ''alice'' ''Hello'')\<lparr>seed := Some 7\<rparr>)
   \<and> \<not> blank (text' ((request_for ''alice'' ''Hello'')\<lparr>seed := Some 7\<rparr>))
   \<and> read_text sample_host
        (ref_text_path_of sample_host ((request_for ''alice'' ''Hello'')\<lparr>seed := Some 7\<rparr>))
       = Inr '' Some call me nature. ''
   \<and> raised_in_try out_of_memory_engine ((request_for ''alice'' ''Hello'')\<lparr>seed := Some 7\<rparr>)
        (ref_audio_path_of sample_host ((request_for ''alice'' ''Hello'')\<lparr>seed := Some 7\<rparr>))
        (strip '' Some call me nature. '') ''CUDA out of memory''
   \<and> fst (generate_speech sample_host out_of_memory_engine
             ((request_for ''alice'' ''Hello'')\<lparr>seed := Some 7\<rparr>) nothing_yet)
       = Inl (HTTPException 500 ''Model inference error: CUDA out of memory'')"
proof -
  let ?r = "(request_for ''alice'' ''Hello'')\<lparr>seed := Some 7\<rparr>"
  have nb: "\<not> blank (text' ?r)"
    by (simp add: request_for_def not_blank_Hello)
  have raised: "raised_in_try out_of_memory_engine ?r (ref_audio_path_of sample_host ?r)
                  (strip '' Some call me nature. '') ''CUDA out of memory''"
    by (rule inference [where s = 7 and u = "()"
          and ref_audio = "str_path (ref_audio_path_of sample_host ?r)"
          and ref_text_processed = "strip '' Some call me nature. ''"])
      (simp_all add: sample_defs)
  from try_block_errors_are_500 [OF sample_alice_checks' nb sample_alice_text raised,
      of nothing_yet]
  show ?thesis
    using sample_alice_checks' nb sample_alice_text raised by simp
qed

text \<open>
  Claim C1 at a request whose \<open>sf.write\<close> fails: the answer is 500 and the temporary
  file that \<open>NamedTemporaryFile\<close> created is still on disk when the handler is done.
\<close>

theorem temp_file_left_after_write_failure:
  "generate_speech sample_host disk_full_engine (request_for ''alice'' ''Hello'') nothing_yet
     = (Inl (HTTPException 500 ''Model inference error: No space left on device''),
        \<lparr>tmp_files = [''/tmp/tmpk3v9.wav''],
         calls = [Call_randint, Call_manual_seed 0, Call_preprocess, Call_infer,
                  Call_NamedTemporaryFile, Call_sf_write]\<rparr>)"
  by (simp add: generate_speech_unfold sample_defs path_defs request_defs block_defs
      blank_def isspace_def strip_def)

end
